theory Spec2Isabelle
  imports Main
begin

section \<open>Values, tables and errors\<close>

text \<open>
  The module \<^verbatim>\<open>src/util/FileIO.py\<close> works on three kinds of data: the registry that
  \<^verbatim>\<open>yaml.load\<close> returns (a dict of dicts), pandas tables, and directory listings.
  An exception of the Python code is a value of \<open>error\<close>; a function that can raise
  returns \<open>error + 'a\<close>, with \<open>Inl\<close> for the exception.
\<close>

datatype error =
    ValueError string
  | KeyError string
  | TypeError
  | IndexError
  | IOError string

text \<open>
  A cell of a table: a string, a number, or the missing value that \<^verbatim>\<open>read_csv\<close>
  puts where a field is empty.
\<close>

datatype cell = CStr string | CInt int | CNaN

text \<open>
  The dtype of a row index. \<open>Object\<close> is pandas' \<^verbatim>\<open>'O'\<close>, the dtype of an index that
  holds text; the others are the dtypes \<^verbatim>\<open>read_csv\<close> infers for an index column whose
  fields all parse as numbers or booleans.
\<close>

datatype dtype = Object | Int64 | Float64 | Bool

text \<open>
  A DataFrame, as far as this module looks at it: the row index, the index's dtype, and
  the columns by name. In a well-formed table each column is as long as the index.
\<close>

record dataframe =
  df_index :: "cell list"
  df_index_dtype :: dtype
  df_columns :: "string \<rightharpoonup> cell list"

section \<open>Iteration order of a Python set\<close>

text \<open>
  \<^verbatim>\<open>list(set(xs))\<close> returns the distinct elements of \<open>xs\<close> in an order that depends on
  the hashes and is not specified. The order is a parameter \<open>set_order\<close> of every function
  that builds such a list: the function that maps the elements inserted to the list the
  iteration gives. \<open>set_order_ok\<close> is all that Python promises of it.
\<close>

definition set_order_ok :: "('a list \<Rightarrow> 'a list) \<Rightarrow> bool" where
  "set_order_ok f \<longleftrightarrow> (\<forall>xs. distinct (f xs) \<and> set (f xs) = set xs)"

section \<open>Class assigner: \<^verbatim>\<open>get_classes\<close>\<close>

text \<open>
  \<^verbatim>\<open>
  controls = ['H',  'nonCDI', 'nonGVHD', 'nonIBD']
  diseases = ['ASD', 'CD', 'CDI', 'CIRR', 'CRC', 'EDD', 'GVHD', 'HIV',
              'MHE', 'NASH', 'OB', 'PAR', 'PSA', 'RA', 'T1D', 'T2D', 'UC']
  labels = list(set(meta['DiseaseState']))
  return [[i for i in labels if i in controls], [j for j in labels if j in diseases]]
  \<close>
  \<^verbatim>\<open>meta['DiseaseState']\<close> raises KeyError when the table has no such column.
\<close>

definition controls :: "cell list" where
  "controls = [CStr ''H'', CStr ''nonCDI'', CStr ''nonGVHD'', CStr ''nonIBD'']"

definition diseases :: "cell list" where
  "diseases = [CStr ''ASD'', CStr ''CD'', CStr ''CDI'', CStr ''CIRR'', CStr ''CRC'',
               CStr ''EDD'', CStr ''GVHD'', CStr ''HIV'', CStr ''MHE'', CStr ''NASH'',
               CStr ''OB'', CStr ''PAR'', CStr ''PSA'', CStr ''RA'', CStr ''T1D'',
               CStr ''T2D'', CStr ''UC'']"

definition get_classes :: "(cell list \<Rightarrow> cell list) \<Rightarrow> dataframe \<Rightarrow> error + cell list list" where
  "get_classes set_order meta =
     (case df_columns meta ''DiseaseState'' of
        None \<Rightarrow> Inl (KeyError ''DiseaseState'')
      | Some col \<Rightarrow>
          (let labels = set_order col
           in Inr [filter (\<lambda>i. i \<in> set controls) labels,
                   filter (\<lambda>j. j \<in> set diseases) labels]))"

section \<open>Sample partitioner: \<^verbatim>\<open>get_samples\<close>\<close>

text \<open>
  \<^verbatim>\<open>
  h = list(meta[meta['DiseaseState'].isin(classes_list[0])].index)
  dis = list(meta[meta['DiseaseState'].isin(classes_list[1])].index)
  return [h, dis]
  \<close>
  \<open>isin_index\<close> is the boolean selection: the index values of the rows whose cell is one
  of the values given, in row order. In each line the column is looked up first
  (KeyError), then the element of \<^verbatim>\<open>classes_list\<close> (IndexError).
\<close>

definition isin_index :: "cell list \<Rightarrow> cell list \<Rightarrow> cell list \<Rightarrow> cell list" where
  "isin_index idx col vals = map fst (filter (\<lambda>(i, v). v \<in> set vals) (zip idx col))"

definition get_samples :: "dataframe \<Rightarrow> cell list list \<Rightarrow> error + cell list list" where
  "get_samples meta classes_list =
     (case df_columns meta ''DiseaseState'' of
        None \<Rightarrow> Inl (KeyError ''DiseaseState'')
      | Some col \<Rightarrow>
          (case classes_list of
             [] \<Rightarrow> Inl IndexError
           | c0 # rest \<Rightarrow>
               (let h = isin_index (df_index meta) col c0
                in case rest of
                     [] \<Rightarrow> Inl IndexError
                   | c1 # _ \<Rightarrow>
                       (let dis = isin_index (df_index meta) col c1
                        in Inr [h, dis]))))"

section \<open>Directory scanner: \<^verbatim>\<open>get_dataset_ids\<close>\<close>

text \<open>
  \<open>split_char sep s\<close> is Python's \<^verbatim>\<open>s.split(sep)\<close> for a separator of one character: the
  fields between the separators, never an empty list.
\<close>

fun split_char :: "char \<Rightarrow> string \<Rightarrow> string list" where
  "split_char sep [] = [[]]"
| "split_char sep (c # cs) =
     (if c = sep then [] # split_char sep cs
      else (case split_char sep cs of
              [] \<Rightarrow> [[c]]
            | w # ws \<Rightarrow> (c # w) # ws))"

text \<open>
  \<^verbatim>\<open>
  files = os.listdir(clean_folder)
  datasets = list(set([i.split('.')[0] for i in files]))
  return [d for d in datasets
          if d + '.otu_table.clean' in files and d + '.metadata.clean' in files]
  \<close>
  The listing \<open>files\<close> is the input. \<^verbatim>\<open>[0]\<close> is \<open>hd\<close>: the split is never empty
  (\<open>split_char_not_Nil\<close> below).
\<close>

definition get_dataset_ids :: "(string list \<Rightarrow> string list) \<Rightarrow> string list \<Rightarrow> string list" where
  "get_dataset_ids set_order files =
     (let datasets = set_order (map (\<lambda>i. hd (split_char CHR ''.'' i)) files)
      in filter (\<lambda>d. d @ ''.otu_table.clean'' \<in> set files
                     \<and> d @ ''.metadata.clean'' \<in> set files) datasets)"

section \<open>Catalog resolver: \<^verbatim>\<open>read_yaml\<close>\<close>

text \<open>
  A value of the parsed registry. The fields the resolver reads are strings; a registry
  may hold anything YAML can write (the nested \<^verbatim>\<open>condition\<close> mapping, a number for
  \<^verbatim>\<open>year\<close>, a null).
\<close>

datatype yval =
    YStr string
  | YInt int
  | YBool bool
  | YNull
  | YSeq "yval list"
  | YMap "(string \<times> yval) list"

text \<open>
  An entry is the inner dict of one dataset; the registry is the outer dict, as the list
  of its items in iteration order (the keys of a dict are distinct).
\<close>

type_synonym entry = "string \<rightharpoonup> yval"

type_synonym registry = "(string \<times> entry) list"

text \<open>
  \<open>os_path_join a b\<close> is \<^verbatim>\<open>os.path.join(a, b)\<close> of \<^verbatim>\<open>posixpath\<close>: an absolute \<open>b\<close>
  replaces \<open>a\<close>; otherwise \<open>b\<close> is appended, after a separator unless \<open>a\<close> is empty or
  ends with one.
\<close>

definition os_path_join :: "string \<Rightarrow> string \<Rightarrow> string" where
  "os_path_join a b =
     (if b \<noteq> [] \<and> hd b = CHR ''/'' then b
      else if a = [] \<or> last a = CHR ''/'' then a @ b
      else a @ ''/'' @ b)"

text \<open>
  \<open>rsplit1 sep s\<close> is \<^verbatim>\<open>s.rsplit(sep, 1)\<close> for a separator of one character: one split,
  at the last separator; the string alone when it has none.
\<close>

definition rsplit1 :: "char \<Rightarrow> string \<Rightarrow> string list" where
  "rsplit1 sep s =
     (if sep \<in> set s
      then [rev (tl (dropWhile (\<lambda>c. c \<noteq> sep) (rev s))),
            rev (takeWhile (\<lambda>c. c \<noteq> sep) (rev s))]
      else [s])"

text \<open>\<^verbatim>\<open>folder.rsplit('_', 1)[0]\<close>; the split has one or two elements.\<close>

definition folder_prefix :: "string \<Rightarrow> string" where
  "folder_prefix folder = hd (rsplit1 CHR ''_'' folder)"

text \<open>
  The three path fields. Each block of the source has the same shape:
  \<^verbatim>\<open>
  if 'otu_table' not in data:
      try:
          folder = data['folder']
          folderpath = os.path.join(batch_data_dir, folder)
          datasets[dataset]['otu_table'] = os.path.realpath(
              os.path.join(os.path.join(folderpath, 'RDP'),
                           folder.rsplit('_', 1)[0] + '.otu_table.100.denovo.rdp_assigned'))
      except KeyError:
          raise ValueError('No OTU table or results folder specified for dataset {}'.format(dataset))
  \<close>
  \<^verbatim>\<open>data\<close> is \<^verbatim>\<open>datasets[dataset]\<close> itself, so the assignment updates \<^verbatim>\<open>data\<close>.
  \<^verbatim>\<open>os.path.realpath\<close> depends on the working directory and on the links of the file
  system: it is the parameter \<open>realpath\<close>. \<^verbatim>\<open>os.path.join\<close> raises TypeError on a folder
  that is not a string, and \<^verbatim>\<open>except KeyError\<close> does not catch it.
  The third block prints instead of raising; \<open>summary_step\<close> returns the line printed.
\<close>

definition otu_table_step ::
  "(string \<Rightarrow> string) \<Rightarrow> string \<Rightarrow> string \<Rightarrow> entry \<Rightarrow> error + entry" where
  "otu_table_step realpath batch_data_dir dataset data =
     (case data ''otu_table'' of
        Some _ \<Rightarrow> Inr data
      | None \<Rightarrow>
          (case data ''folder'' of
             None \<Rightarrow> Inl (ValueError
                 (''No OTU table or results folder specified for dataset '' @ dataset))
           | Some (YStr folder) \<Rightarrow>
               (let folderpath = os_path_join batch_data_dir folder
                in Inr (data(''otu_table'' \<mapsto> YStr (realpath
                     (os_path_join (os_path_join folderpath ''RDP'')
                        (folder_prefix folder @ ''.otu_table.100.denovo.rdp_assigned''))))))
           | Some _ \<Rightarrow> Inl TypeError))"

definition metadata_file_step ::
  "(string \<Rightarrow> string) \<Rightarrow> string \<Rightarrow> string \<Rightarrow> entry \<Rightarrow> error + entry" where
  "metadata_file_step realpath batch_data_dir dataset data =
     (case data ''metadata_file'' of
        Some _ \<Rightarrow> Inr data
      | None \<Rightarrow>
          (case data ''folder'' of
             None \<Rightarrow> Inl (ValueError
                 (''No metadata file or results folder specified for dataset '' @ dataset))
           | Some (YStr folder) \<Rightarrow>
               (let folderpath = os_path_join batch_data_dir folder
                in Inr (data(''metadata_file'' \<mapsto> YStr (realpath
                     (os_path_join folderpath (folder_prefix folder @ ''.metadata.txt''))))))
           | Some _ \<Rightarrow> Inl TypeError))"

definition summary_file_step ::
  "(string \<Rightarrow> string) \<Rightarrow> string \<Rightarrow> string \<Rightarrow> entry \<Rightarrow> string list \<times> (error + entry)" where
  "summary_file_step realpath batch_data_dir dataset data =
     (case data ''summary_file'' of
        Some _ \<Rightarrow> ([], Inr data)
      | None \<Rightarrow>
          (case data ''folder'' of
             None \<Rightarrow>
               ([''No summary file or results folder specified for dataset '' @ dataset],
                Inr data)
           | Some (YStr folder) \<Rightarrow>
               (let folderpath = os_path_join batch_data_dir folder
                in ([], Inr (data(''summary_file'' \<mapsto> YStr (realpath
                     (os_path_join folderpath ''summary_file.txt''))))))
           | Some _ \<Rightarrow> ([], Inl TypeError)))"

text \<open>
  \<^verbatim>\<open>
  if 'region' not in data:
      datasets[dataset]['region'] = 'unk'
  \<close>
  and the same for \<^verbatim>\<open>sequencer\<close>, \<^verbatim>\<open>disease_label\<close>, \<^verbatim>\<open>table_type\<close> and \<^verbatim>\<open>year\<close>.
\<close>

definition set_if_absent :: "string \<Rightarrow> yval \<Rightarrow> entry \<Rightarrow> entry" where
  "set_if_absent k v data = (case data k of None \<Rightarrow> data(k \<mapsto> v) | Some _ \<Rightarrow> data)"

definition fill_defaults :: "entry \<Rightarrow> entry" where
  "fill_defaults data =
     set_if_absent ''year'' (YStr ''unk'')
       (set_if_absent ''table_type'' (YStr ''classic'')
         (set_if_absent ''disease_label'' (YStr ''DiseaseState'')
           (set_if_absent ''sequencer'' (YStr ''unk'')
             (set_if_absent ''region'' (YStr ''unk'') data))))"

text \<open>
  The body of the loop, for one dataset: the lines it prints, and the entry it leaves or
  the exception that ends the call.
\<close>

definition resolve_entry ::
  "(string \<Rightarrow> string) \<Rightarrow> string \<Rightarrow> string \<Rightarrow> entry \<Rightarrow> string list \<times> (error + entry)" where
  "resolve_entry realpath batch_data_dir dataset data =
     (case otu_table_step realpath batch_data_dir dataset data of
        Inl e \<Rightarrow> ([], Inl e)
      | Inr d1 \<Rightarrow>
          (case metadata_file_step realpath batch_data_dir dataset d1 of
             Inl e \<Rightarrow> ([], Inl e)
           | Inr d2 \<Rightarrow>
               (case summary_file_step realpath batch_data_dir dataset d2 of
                  (out, Inl e) \<Rightarrow> (out, Inl e)
                | (out, Inr d3) \<Rightarrow> (out, Inr (fill_defaults d3)))))"

text \<open>
  \<^verbatim>\<open>for dataset in datasets: ...; return datasets\<close>. The input is the registry as
  \<^verbatim>\<open>yaml.load\<close> returned it. The result is what was printed, and the registry returned or
  the exception raised; an exception ends the loop.
\<close>

fun read_yaml ::
  "(string \<Rightarrow> string) \<Rightarrow> string \<Rightarrow> registry \<Rightarrow> string list \<times> (error + registry)" where
  "read_yaml realpath batch_data_dir [] = ([], Inr [])"
| "read_yaml realpath batch_data_dir ((dataset, data) # rest) =
     (case resolve_entry realpath batch_data_dir dataset data of
        (out, Inl e) \<Rightarrow> (out, Inl e)
      | (out, Inr data') \<Rightarrow>
          (case read_yaml realpath batch_data_dir rest of
             (out', Inl e) \<Rightarrow> (out @ out', Inl e)
           | (out', Inr rest') \<Rightarrow> (out @ out', Inr ((dataset, data') # rest'))))"

section \<open>Dataset loader: \<^verbatim>\<open>read_dataset_files\<close>\<close>

text \<open>
  \<^verbatim>\<open>
  fnotu = datasetid + '.otu_table.clean'
  fnmeta = datasetid + '.metadata.clean'
  df = pd.read_csv(os.path.join(clean_folder, fnotu), sep='\t', index_col=0)
  meta = pd.read_csv(os.path.join(clean_folder, fnmeta), sep='\t', index_col=0)
  if df.index.dtype != 'O':
      df.index = pd.read_csv(os.path.join(clean_folder, fnotu), sep='\t', dtype=str).iloc[:,0]
  if meta.index.dtype != 'O':
      meta.index = pd.read_csv(os.path.join(clean_folder, fnmeta), sep='\t', dtype=str).iloc[:,0]
  return df, meta
  \<close>
  The two ways the file system is read are parameters:
  \<open>read_csv_index0 path\<close> is \<^verbatim>\<open>pd.read_csv(path, sep='\t', index_col=0)\<close>, and
  \<open>read_csv_text0 path\<close> is \<^verbatim>\<open>pd.read_csv(path, sep='\t', dtype=str).iloc[:,0]\<close>, the
  first column read as text. Either can raise.

  \<open>set_index\<close> is the assignment to \<^verbatim>\<open>.index\<close>: pandas raises ValueError when the new
  index has another length than the table; a column read with \<^verbatim>\<open>dtype=str\<close> has the
  dtype \<^verbatim>\<open>'O'\<close>, and so has the index made of it.
\<close>

definition set_index :: "dataframe \<Rightarrow> cell list \<Rightarrow> error + dataframe" where
  "set_index t new_index =
     (if length new_index \<noteq> length (df_index t) then Inl (ValueError ''Length mismatch'')
      else Inr (t\<lparr>df_index := new_index, df_index_dtype := Object\<rparr>))"

definition index_as_text ::
  "(string \<Rightarrow> error + cell list) \<Rightarrow> string \<Rightarrow> dataframe \<Rightarrow> error + dataframe" where
  "index_as_text read_csv_text0 path t =
     (if df_index_dtype t \<noteq> Object
      then (case read_csv_text0 path of
              Inl e \<Rightarrow> Inl e
            | Inr col0 \<Rightarrow> set_index t col0)
      else Inr t)"

definition read_dataset_files ::
  "(string \<Rightarrow> error + dataframe) \<Rightarrow> (string \<Rightarrow> error + cell list) \<Rightarrow>
   string \<Rightarrow> string \<Rightarrow> error + (dataframe \<times> dataframe)" where
  "read_dataset_files read_csv_index0 read_csv_text0 datasetid clean_folder =
     (let fnotu = datasetid @ ''.otu_table.clean'';
          fnmeta = datasetid @ ''.metadata.clean''
      in case read_csv_index0 (os_path_join clean_folder fnotu) of
           Inl e \<Rightarrow> Inl e
         | Inr df \<Rightarrow>
             (case read_csv_index0 (os_path_join clean_folder fnmeta) of
                Inl e \<Rightarrow> Inl e
              | Inr meta \<Rightarrow>
                  (case index_as_text read_csv_text0 (os_path_join clean_folder fnotu) df of
                     Inl e \<Rightarrow> Inl e
                   | Inr df' \<Rightarrow>
                       (case index_as_text read_csv_text0
                               (os_path_join clean_folder fnmeta) meta of
                          Inl e \<Rightarrow> Inl e
                        | Inr meta' \<Rightarrow> Inr (df', meta')))))"

section \<open>Batch aggregator: \<^verbatim>\<open>read_dfdict_data\<close>\<close>

text \<open>
  What the aggregator takes from outside the module: the directory listing
  (\<^verbatim>\<open>os.listdir\<close>), the two readers of the loader, the normalisation \<^verbatim>\<open>raw2abun\<close> of
  \<^verbatim>\<open>util\<close>, and the iteration orders of the two sets it builds.
\<close>

record world =
  listdir :: "string \<Rightarrow> error + string list"
  read_csv_index0 :: "string \<Rightarrow> error + dataframe"
  read_csv_text0 :: "string \<Rightarrow> error + cell list"
  raw2abun :: "dataframe \<Rightarrow> error + dataframe"
  id_set_order :: "string list \<Rightarrow> string list"
  label_set_order :: "cell list \<Rightarrow> cell list"

text \<open>The value stored for one dataset.\<close>

record dataset_bundle =
  b_df :: dataframe
  b_meta :: dataframe
  b_dis_smpls :: "cell list"
  b_H_smpls :: "cell list"
  b_classes :: "cell list list"

text \<open>
  The body of the loop after the print:
  \<^verbatim>\<open>
  df, meta = read_dataset_files(dataset, datadir)
  df = raw2abun(df)
  classes_list = get_classes(meta)
  if len(classes_list[0]) == 0 or len(classes_list[1]) == 0:
      raise ValueError('Something wrong with ' + dataset + ' metadata.')
  H_smpls, dis_smpls = get_samples(meta, classes_list)
  dfdict.update({dataset: {'df': df, 'meta': meta, 'dis_smpls': dis_smpls,
                           'H_smpls': H_smpls, 'classes': classes_list}})
  \<close>
  \<open>load_bundle\<close> returns the value to store, or the exception.
\<close>

definition load_bundle :: "world \<Rightarrow> string \<Rightarrow> string \<Rightarrow> error + dataset_bundle" where
  "load_bundle w datadir dataset =
     (case read_dataset_files (read_csv_index0 w) (read_csv_text0 w) dataset datadir of
        Inl e \<Rightarrow> Inl e
      | Inr (df0, meta) \<Rightarrow>
          (case raw2abun w df0 of
             Inl e \<Rightarrow> Inl e
           | Inr df \<Rightarrow>
               (case get_classes (label_set_order w) meta of
                  Inl e \<Rightarrow> Inl e
                | Inr classes_list \<Rightarrow>
                    (case classes_list of
                       c0 # c1 # _ \<Rightarrow>
                         if length c0 = 0 \<or> length c1 = 0
                         then Inl (ValueError
                                (''Something wrong with '' @ dataset @ '' metadata.''))
                         else (case get_samples meta classes_list of
                                 Inl e \<Rightarrow> Inl e
                               | Inr [H_smpls, dis_smpls] \<Rightarrow>
                                   Inr \<lparr>b_df = df, b_meta = meta, b_dis_smpls = dis_smpls,
                                        b_H_smpls = H_smpls, b_classes = classes_list\<rparr>
                               | Inr _ \<Rightarrow> Inl (ValueError ''unpack''))
                     | _ \<Rightarrow> Inl IndexError))))"

text \<open>
  \<^verbatim>\<open>for dataset in datasetids: print(dataset), ...\<close>: the names printed, and the dict
  at the end of the loop or the exception that ended it.
\<close>

fun dfdict_loop ::
  "world \<Rightarrow> string \<Rightarrow> string list \<Rightarrow> (string \<rightharpoonup> dataset_bundle) \<Rightarrow>
   string list \<times> (error + (string \<rightharpoonup> dataset_bundle))" where
  "dfdict_loop w datadir [] dfdict = ([], Inr dfdict)"
| "dfdict_loop w datadir (dataset # rest) dfdict =
     (case load_bundle w datadir dataset of
        Inl e \<Rightarrow> ([dataset], Inl e)
      | Inr b \<Rightarrow>
          (case dfdict_loop w datadir rest (dfdict(dataset \<mapsto> b)) of
             (out, r) \<Rightarrow> (dataset # out, r)))"

text \<open>
  \<^verbatim>\<open>
  print('Reading datasets...')
  dfdict = {}
  datasetids = get_dataset_ids(datadir)
  for dataset in datasetids: ...
  print('\nReading datasets... Finished.')
  return dfdict
  \<close>
\<close>

definition read_dfdict_data ::
  "world \<Rightarrow> string \<Rightarrow> string list \<times> (error + (string \<rightharpoonup> dataset_bundle))" where
  "read_dfdict_data w datadir =
     (case listdir w datadir of
        Inl e \<Rightarrow> ([''Reading datasets...''], Inl e)
      | Inr files \<Rightarrow>
          (case dfdict_loop w datadir (get_dataset_ids (id_set_order w) files) Map.empty of
             (out, Inl e) \<Rightarrow> (''Reading datasets...'' # out, Inl e)
           | (out, Inr dfdict) \<Rightarrow>
               (''Reading datasets...'' # out
                  @ [CHR 0x0A # ''Reading datasets... Finished.''],
                Inr dfdict)))"

section \<open>Example inputs\<close>

text \<open>The tables and the listing of the examples of the specification, used below.\<close>

definition samples_meta :: dataframe where
  "samples_meta =
     \<lparr>df_index = [CStr ''s1'', CStr ''s2'', CStr ''s3''],
      df_index_dtype = Object,
      df_columns = [''DiseaseState'' \<mapsto> [CStr ''H'', CStr ''CD'', CStr ''Unknown'']]\<rparr>"

definition status_meta :: dataframe where
  "status_meta =
     \<lparr>df_index = [CStr ''s1'', CStr ''s2''],
      df_index_dtype = Object,
      df_columns = [''Status'' \<mapsto> [CStr ''H'', CStr ''CD'']]\<rparr>"

definition scan_files :: "string list" where
  "scan_files = [''A.otu_table.clean'', ''A.metadata.clean'', ''B.otu_table.clean'']"

definition folder_entry :: entry where
  "folder_entry = [''folder'' \<mapsto> YStr ''foo_bar_results'', ''region'' \<mapsto> YStr ''V4'',
                   ''year'' \<mapsto> YInt 2014]"


definition paths_entry :: entry where
  "paths_entry = [''otu_table'' \<mapsto> YStr ''/x/otu.txt'', ''metadata_file'' \<mapsto> YStr ''/x/meta.txt'']"

text \<open>
  A directory \<^verbatim>\<open>/clean\<close> with one clean pair whose sample identifiers are 1001 and 1002,
  as the two readers see it: read with \<^verbatim>\<open>index_col=0\<close> the index is of integers, read
  with \<^verbatim>\<open>dtype=str\<close> the first column is of strings.
\<close>

definition numeric_reader :: "string \<Rightarrow> error + dataframe" where
  "numeric_reader path =
     (if path = ''/clean/D.otu_table.clean''
      then Inr \<lparr>df_index = [CInt 1001, CInt 1002], df_index_dtype = Int64,
                df_columns = [''otu1'' \<mapsto> [CInt 3, CInt 5]]\<rparr>
      else if path = ''/clean/D.metadata.clean''
      then Inr \<lparr>df_index = [CInt 1001, CInt 1002], df_index_dtype = Int64,
                df_columns = [''DiseaseState'' \<mapsto> [CStr ''H'', CStr ''CD'']]\<rparr>
      else Inl (IOError path))"

definition text_reader :: "string \<Rightarrow> error + cell list" where
  "text_reader path =
     (if path = ''/clean/D.otu_table.clean'' \<or> path = ''/clean/D.metadata.clean''
      then Inr [CStr ''1001'', CStr ''1002'']
      else Inl (IOError path))"

text \<open>
  A directory with the clean pairs of two datasets in which every sample is a control.
\<close>

definition controls_only_world :: world where
  "controls_only_world =
     \<lparr>listdir = (\<lambda>d. Inr [''A.otu_table.clean'', ''A.metadata.clean'',
                            ''B.otu_table.clean'', ''B.metadata.clean'']),
      read_csv_index0 = (\<lambda>p. Inr \<lparr>df_index = [CStr ''s1'', CStr ''s2''],
                                    df_index_dtype = Object,
                                    df_columns = [''DiseaseState'' \<mapsto> [CStr ''H'', CStr ''H'']]\<rparr>),
      read_csv_text0 = (\<lambda>p. Inl (IOError p)),
      raw2abun = Inr,
      id_set_order = remdups,
      label_set_order = remdups\<rparr>"


text \<open>
  The directory \<^verbatim>\<open>/clean\<close> with one clean pair whose sample identifiers are
  99999999999999999999 and 1. The first does not fit 64 bits, and the index read with
  \<^verbatim>\<open>index_col=0\<close> holds integers under the dtype \<^verbatim>\<open>'O'\<close>; read with \<^verbatim>\<open>dtype=str\<close>
  the first column is of strings.
\<close>

definition big_id_reader :: "string \<Rightarrow> error + dataframe" where
  "big_id_reader path =
     (if path = ''/clean/D.otu_table.clean''
      then Inr \<lparr>df_index = [CInt 99999999999999999999, CInt 1], df_index_dtype = Object,
                df_columns = [''otu1'' \<mapsto> [CInt 3, CInt 5]]\<rparr>
      else if path = ''/clean/D.metadata.clean''
      then Inr \<lparr>df_index = [CInt 99999999999999999999, CInt 1], df_index_dtype = Object,
                df_columns = [''DiseaseState'' \<mapsto> [CStr ''H'', CStr ''CD'']]\<rparr>
      else Inl (IOError path))"

definition big_id_text_reader :: "string \<Rightarrow> error + cell list" where
  "big_id_text_reader path =
     (if path = ''/clean/D.otu_table.clean'' \<or> path = ''/clean/D.metadata.clean''
      then Inr [CStr ''99999999999999999999'', CStr ''1'']
      else Inl (IOError path))"

section \<open>Properties of the class assigner\<close>

lemma controls_set: "set controls = CStr ` {''H'', ''nonCDI'', ''nonGVHD'', ''nonIBD''}"
  by (simp add: controls_def)

lemma diseases_set: "set diseases = CStr ` {''ASD'', ''CD'', ''CDI'', ''CIRR'', ''CRC'', ''EDD'', ''GVHD'',
          ''HIV'', ''MHE'', ''NASH'', ''OB'', ''PAR'', ''PSA'', ''RA'', ''T1D'', ''T2D'', ''UC''}"
  by (simp add: diseases_def)

lemma vocab_disjoint: "set controls \<inter> set diseases = {}"
  by (simp add: controls_def diseases_def)

lemma set_filter_mem: "set (filter (\<lambda>i. i \<in> A) xs) = set xs \<inter> A"
  by auto

text \<open>
  Claim C1. For a table with a \<^verbatim>\<open>DiseaseState\<close> column, \<open>get_classes\<close> returns without
  error a pair of lists with no repetition: the first holds exactly the values of the
  column that are in the control vocabulary H, nonCDI, nonGVHD, nonIBD, the second
  exactly those in the disease vocabulary ASD, ..., UC. The order inside each list is
  that of the set iteration. A value of neither vocabulary is in neither list.
\<close>

theorem get_classes_matches_vocabularies:
  assumes "set_order_ok so" and "df_columns meta ''DiseaseState'' = Some col"
  shows "\<exists>mc md. get_classes so meta = Inr [mc, md] \<and> distinct mc \<and> distinct md \<and>
     set mc = set col \<inter> CStr ` {''H'', ''nonCDI'', ''nonGVHD'', ''nonIBD''} \<and>
     set md = set col \<inter> CStr ` {''ASD'', ''CD'', ''CDI'', ''CIRR'', ''CRC'', ''EDD'', ''GVHD'',
          ''HIV'', ''MHE'', ''NASH'', ''OB'', ''PAR'', ''PSA'', ''RA'', ''T1D'', ''T2D'', ''UC''}"
proof -
  from assms(1) have d: "distinct (so col)" and s: "set (so col) = set col"
    by (simp_all add: set_order_ok_def)
  have g: "get_classes so meta = Inr [filter (\<lambda>i. i \<in> set controls) (so col),
                   filter (\<lambda>j. j \<in> set diseases) (so col)]"
    using assms(2) by (simp add: get_classes_def Let_def)
  have c: "set (filter (\<lambda>i. i \<in> set controls) (so col)) = set col \<inter> CStr ` {''H'', ''nonCDI'', ''nonGVHD'', ''nonIBD''}"
    by (simp only: set_filter_mem s controls_set)
  have e: "set (filter (\<lambda>i. i \<in> set diseases) (so col)) = set col \<inter> CStr ` {''ASD'', ''CD'', ''CDI'', ''CIRR'', ''CRC'', ''EDD'', ''GVHD'',
          ''HIV'', ''MHE'', ''NASH'', ''OB'', ''PAR'', ''PSA'', ''RA'', ''T1D'', ''T2D'', ''UC''}"
    by (simp only: set_filter_mem s diseases_set)
  from g c e d show ?thesis
    by (intro exI conjI) (assumption | rule distinct_filter)+
qed

text \<open>
  The example of the specification: the values H, CD, UC and Unknown give
  \<^verbatim>\<open>[['H'], ['CD', 'UC']]\<close>.
\<close>

theorem get_classes_matches_vocabularies_witness:
  "set_order_ok (remdups :: cell list \<Rightarrow> cell list) \<and>
   df_columns \<lparr>df_index = [CStr ''s1'', CStr ''s2'', CStr ''s3'', CStr ''s4'', CStr ''s5''],
               df_index_dtype = Object,
               df_columns = [''DiseaseState'' \<mapsto>
                  [CStr ''H'', CStr ''CD'', CStr ''UC'', CStr ''Unknown'', CStr ''H'']]\<rparr>
      ''DiseaseState''
     = Some [CStr ''H'', CStr ''CD'', CStr ''UC'', CStr ''Unknown'', CStr ''H''] \<and>
   get_classes remdups
     \<lparr>df_index = [CStr ''s1'', CStr ''s2'', CStr ''s3'', CStr ''s4'', CStr ''s5''],
      df_index_dtype = Object,
      df_columns = [''DiseaseState'' \<mapsto>
         [CStr ''H'', CStr ''CD'', CStr ''UC'', CStr ''Unknown'', CStr ''H'']]\<rparr>
     = Inr [[CStr ''H''], [CStr ''CD'', CStr ''UC'']] \<and>
   (\<exists>mc md. get_classes remdups
       \<lparr>df_index = [CStr ''s1'', CStr ''s2'', CStr ''s3'', CStr ''s4'', CStr ''s5''],
        df_index_dtype = Object,
        df_columns = [''DiseaseState'' \<mapsto>
           [CStr ''H'', CStr ''CD'', CStr ''UC'', CStr ''Unknown'', CStr ''H'']]\<rparr>
         = Inr [mc, md] \<and> distinct mc \<and> distinct md \<and>
      set mc = set [CStr ''H'', CStr ''CD'', CStr ''UC'', CStr ''Unknown'', CStr ''H'']
                 \<inter> CStr ` {''H'', ''nonCDI'', ''nonGVHD'', ''nonIBD''} \<and>
      set md = set [CStr ''H'', CStr ''CD'', CStr ''UC'', CStr ''Unknown'', CStr ''H'']
                 \<inter> CStr ` {''ASD'', ''CD'', ''CDI'', ''CIRR'', ''CRC'', ''EDD'', ''GVHD'',
          ''HIV'', ''MHE'', ''NASH'', ''OB'', ''PAR'', ''PSA'', ''RA'', ''T1D'', ''T2D'', ''UC''})"
proof -
  have ok: "set_order_ok (remdups :: cell list \<Rightarrow> cell list)"
    by (simp add: set_order_ok_def)
  have col: "df_columns \<lparr>df_index = [CStr ''s1'', CStr ''s2'', CStr ''s3'', CStr ''s4'', CStr ''s5''],
               df_index_dtype = Object,
               df_columns = [''DiseaseState'' \<mapsto>
                  [CStr ''H'', CStr ''CD'', CStr ''UC'', CStr ''Unknown'', CStr ''H'']]\<rparr>
      ''DiseaseState''
     = Some [CStr ''H'', CStr ''CD'', CStr ''UC'', CStr ''Unknown'', CStr ''H'']"
    by simp
  have ev: "get_classes remdups
     \<lparr>df_index = [CStr ''s1'', CStr ''s2'', CStr ''s3'', CStr ''s4'', CStr ''s5''],
      df_index_dtype = Object,
      df_columns = [''DiseaseState'' \<mapsto>
         [CStr ''H'', CStr ''CD'', CStr ''UC'', CStr ''Unknown'', CStr ''H'']]\<rparr>
     = Inr [[CStr ''H''], [CStr ''CD'', CStr ''UC'']]"
    by (simp add: get_classes_def controls_def diseases_def)
  show ?thesis
    using ok col ev get_classes_matches_vocabularies[OF ok col] by (intro conjI)
qed

text \<open>
  Claim C9. The two lists that \<open>get_classes\<close> returns share no label, whatever the order
  of the set iteration: the two vocabularies share none.
\<close>

theorem get_classes_disjoint:
  assumes "get_classes so meta = Inr [mc, md]"
  shows "set mc \<inter> set md = {}"
proof -
  from assms obtain col where
    mc: "mc = filter (\<lambda>i. i \<in> set controls) (so col)" and
    md: "md = filter (\<lambda>j. j \<in> set diseases) (so col)"
    by (auto simp: get_classes_def Let_def split: option.splits)
  have "set mc \<inter> set md \<subseteq> set controls \<inter> set diseases"
    unfolding mc md by auto
  then show ?thesis by (simp only: vocab_disjoint subset_empty)
qed

theorem get_classes_disjoint_witness:
  "get_classes remdups samples_meta = Inr [[CStr ''H''], [CStr ''CD'']] \<and>
   set [CStr ''H''] \<inter> set [CStr ''CD''] = {}"
proof -
  have ev: "get_classes remdups samples_meta = Inr [[CStr ''H''], [CStr ''CD'']]"
    by (simp add: get_classes_def samples_meta_def controls_def diseases_def)
  from ev get_classes_disjoint[OF ev] show ?thesis by (intro conjI)
qed

section \<open>Properties of the sample partitioner\<close>

lemma isin_index_positions:
  "length col = length idx \<Longrightarrow>
   isin_index idx col vals =
     map ((!) idx) (filter (\<lambda>k. col ! k \<in> set vals) [0..<length idx])"
proof (induction idx arbitrary: col rule: rev_induct)
  case Nil
  then show ?case by (simp add: isin_index_def)
next
  case (snoc x xs)
  then obtain ys y where col: "col = ys @ [y]" and len: "length ys = length xs"
    by (cases col rule: rev_cases) auto
  have ih: "isin_index xs ys vals =
     map ((!) xs) (filter (\<lambda>k. ys ! k \<in> set vals) [0..<length xs])"
    using snoc.IH[OF len] .
  have m1: "map ((!) (xs @ [x])) (filter (\<lambda>k. (ys @ [y]) ! k \<in> set vals) [0..<length xs])
     = map ((!) xs) (filter (\<lambda>k. ys ! k \<in> set vals) [0..<length xs])"
    using len by (auto simp: nth_append intro!: map_cong filter_cong)
  have a: "(ys @ [y]) ! length xs = y"
    using len by (metis nth_append_length)
  have b: "(xs @ [x]) ! length xs = x"
    by simp
  have step: "map ((!) (xs @ [x]))
        (filter (\<lambda>k. (ys @ [y]) ! k \<in> set vals) [0..<length (xs @ [x])])
     = map ((!) (xs @ [x])) (filter (\<lambda>k. (ys @ [y]) ! k \<in> set vals) [0..<length xs])
        @ (if y \<in> set vals then [x] else [])"
    by (simp add: a b)
  have "isin_index (xs @ [x]) (ys @ [y]) vals =
      isin_index xs ys vals @ (if y \<in> set vals then [x] else [])"
    using len by (simp add: isin_index_def)
  then show ?case
    unfolding col by (simp only: ih step m1)
qed

text \<open>
  Claim C6. For a table whose \<^verbatim>\<open>DiseaseState\<close> column is as long as its index, and a
  classes list \<open>[cs, ds]\<close>, \<open>get_samples\<close> returns two lists: the index values of exactly
  the rows whose value is in \<open>cs\<close>, and of exactly the rows whose value is in \<open>ds\<close>, in row
  order. A row whose value is in neither is selected for neither.
\<close>

theorem get_samples_selects_rows:
  assumes "df_columns meta ''DiseaseState'' = Some col"
      and "length col = length (df_index meta)"
  shows "get_samples meta [cs, ds] =
     Inr [map ((!) (df_index meta))
            (filter (\<lambda>k. col ! k \<in> set cs) [0..<length (df_index meta)]),
          map ((!) (df_index meta))
            (filter (\<lambda>k. col ! k \<in> set ds) [0..<length (df_index meta)])]"
  using assms by (simp add: get_samples_def Let_def isin_index_positions)

text \<open>
  The example of the specification: classes \<^verbatim>\<open>[['H'], ['CD']]\<close> and the rows s1: H,
  s2: CD, s3: Unknown.
\<close>

theorem get_samples_selects_rows_witness:
  "df_columns samples_meta ''DiseaseState'' = Some [CStr ''H'', CStr ''CD'', CStr ''Unknown''] \<and>
   length [CStr ''H'', CStr ''CD'', CStr ''Unknown''] = length (df_index samples_meta) \<and>
   get_samples samples_meta [[CStr ''H''], [CStr ''CD'']] = Inr [[CStr ''s1''], [CStr ''s2'']]"
proof -
  have c: "df_columns samples_meta ''DiseaseState''
             = Some [CStr ''H'', CStr ''CD'', CStr ''Unknown'']"
    by (simp add: samples_meta_def)
  have l: "length [CStr ''H'', CStr ''CD'', CStr ''Unknown''] = length (df_index samples_meta)"
    by (simp add: samples_meta_def)
  have u: "[0..<length (df_index samples_meta)] = [0, 1, 2]"
    by (simp add: samples_meta_def upt_rec)
  have i: "df_index samples_meta = [CStr ''s1'', CStr ''s2'', CStr ''s3'']"
    by (simp add: samples_meta_def)
  have "get_samples samples_meta [[CStr ''H''], [CStr ''CD'']]
          = Inr [[CStr ''s1''], [CStr ''s2'']]"
    using get_samples_selects_rows[OF c l, of "[CStr ''H'']" "[CStr ''CD'']"]
    unfolding u i by simp
  with c l show ?thesis by (intro conjI)
qed

text \<open>
  Claim C10. \<open>get_classes\<close> and \<open>get_samples\<close> take no column name: they read the column
  named \<^verbatim>\<open>DiseaseState\<close>. On a table without that column each raises KeyError, and a
  column under any other name, such as one a registry names as \<^verbatim>\<open>disease_label\<close>, changes
  nothing of what they return.
\<close>

theorem disease_state_column_is_fixed:
  "(df_columns meta ''DiseaseState'' = None \<longrightarrow>
      get_classes so meta = Inl (KeyError ''DiseaseState'') \<and>
      get_samples meta classes_list = Inl (KeyError ''DiseaseState'')) \<and>
   (label \<noteq> ''DiseaseState'' \<longrightarrow>
      get_classes so (meta\<lparr>df_columns := (df_columns meta)(label := c)\<rparr>) = get_classes so meta \<and>
      get_samples (meta\<lparr>df_columns := (df_columns meta)(label := c)\<rparr>) classes_list
        = get_samples meta classes_list)"
  by (simp add: get_classes_def get_samples_def Let_def split: option.splits list.splits)

theorem disease_state_column_is_fixed_witness:
  "df_columns status_meta ''DiseaseState'' = None \<and>
   df_columns status_meta ''Status'' = Some [CStr ''H'', CStr ''CD''] \<and>
   get_classes remdups status_meta = Inl (KeyError ''DiseaseState'') \<and>
   get_samples status_meta [[CStr ''H''], [CStr ''CD'']] = Inl (KeyError ''DiseaseState'') \<and>
   get_classes remdups
     (samples_meta\<lparr>df_columns := (df_columns samples_meta)(''Status'' := Some [CStr ''CD''])\<rparr>)
     = get_classes remdups samples_meta"
proof -
  have n: "df_columns status_meta ''DiseaseState'' = None"
    by (simp add: status_meta_def)
  have s: "df_columns status_meta ''Status'' = Some [CStr ''H'', CStr ''CD'']"
    by (simp add: status_meta_def)
  have ne: "''Status'' \<noteq> ''DiseaseState''"
    by simp
  show ?thesis
    using n s ne
      disease_state_column_is_fixed[of status_meta remdups "[[CStr ''H''], [CStr ''CD'']]"
        "''Status''" "Some [CStr ''CD'']"]
      disease_state_column_is_fixed[of samples_meta remdups "[[CStr ''H''], [CStr ''CD'']]"
        "''Status''" "Some [CStr ''CD'']"]
    by simp
qed

section \<open>Properties of the directory scanner\<close>

lemma split_char_not_Nil: "split_char sep s \<noteq> []"
  by (induction s) (auto split: list.splits)

lemma hd_split_char: "hd (split_char sep s) = takeWhile (\<lambda>c. c \<noteq> sep) s"
  by (induction s) (auto split: list.splits simp: split_char_not_Nil)

lemma takeWhile_no_sep: "sep \<notin> set d \<Longrightarrow> takeWhile (\<lambda>c. c \<noteq> sep) (d @ sep # t) = d"
  by (induction d) auto

lemma sep_notin_takeWhile: "sep \<notin> set (takeWhile (\<lambda>c. c \<noteq> sep) f)"
  by (induction f) auto

text \<open>
  Claim C7. \<open>get_dataset_ids\<close> returns a list with no repetition whose elements are
  exactly the strings \<open>d\<close> that are the part before the first dot of some file name of the
  listing and for which both \<open>d.otu_table.clean\<close> and \<open>d.metadata.clean\<close> are in the
  listing. The order is that of the set iteration.
\<close>

theorem get_dataset_ids_complete_pairs:
  assumes "set_order_ok so"
  shows "distinct (get_dataset_ids so files) \<and>
     set (get_dataset_ids so files) =
       {d. (\<exists>f. f \<in> set files \<and> CHR ''.'' \<in> set f \<and> d = takeWhile (\<lambda>c. c \<noteq> CHR ''.'') f) \<and>
           d @ ''.otu_table.clean'' \<in> set files \<and> d @ ''.metadata.clean'' \<in> set files}"
proof -
  let ?cands = "map (\<lambda>i. hd (split_char CHR ''.'' i)) files"
  from assms have d: "distinct (so ?cands)" and s: "set (so ?cands) = set ?cands"
    by (simp_all add: set_order_ok_def)
  have dist: "distinct (get_dataset_ids so files)"
    using d by (simp add: get_dataset_ids_def Let_def)
  have "set (get_dataset_ids so files) =
      {d \<in> set ?cands. d @ ''.otu_table.clean'' \<in> set files \<and> d @ ''.metadata.clean'' \<in> set files}"
    using s by (simp add: get_dataset_ids_def Let_def)
  also have "\<dots> = {d. (\<exists>f. f \<in> set files \<and> CHR ''.'' \<in> set f \<and> d = takeWhile (\<lambda>c. c \<noteq> CHR ''.'') f) \<and>
           d @ ''.otu_table.clean'' \<in> set files \<and> d @ ''.metadata.clean'' \<in> set files}"
    (is "?L = ?R")
  proof (intro set_eqI iffI)
    fix d assume "d \<in> ?L"
    then obtain f where f: "f \<in> set files" "d = takeWhile (\<lambda>c. c \<noteq> CHR ''.'') f"
      and o: "d @ ''.otu_table.clean'' \<in> set files" and m: "d @ ''.metadata.clean'' \<in> set files"
      by (auto simp: hd_split_char)
    have nd: "CHR ''.'' \<notin> set d"
      unfolding f(2) by (rule sep_notin_takeWhile)
    have "d = takeWhile (\<lambda>c. c \<noteq> CHR ''.'') (d @ ''.otu_table.clean'')"
      using takeWhile_no_sep[OF nd, of "''otu_table.clean''"] by simp
    moreover have "CHR ''.'' \<in> set (d @ ''.otu_table.clean'')" by simp
    ultimately show "d \<in> ?R" using o m by blast
  next
    fix d assume "d \<in> ?R"
    then show "d \<in> ?L" by (auto simp: hd_split_char)
  qed
  finally show ?thesis using dist by simp
qed

text \<open>
  The example of the specification: over A.otu_table.clean, A.metadata.clean and
  B.otu_table.clean the scan returns A alone.
\<close>

theorem get_dataset_ids_complete_pairs_witness:
  "set_order_ok (remdups :: string list \<Rightarrow> string list) \<and>
   get_dataset_ids remdups scan_files = [''A''] \<and>
   distinct (get_dataset_ids remdups scan_files) \<and>
   set (get_dataset_ids remdups scan_files) =
     {d. (\<exists>f. f \<in> set scan_files \<and> CHR ''.'' \<in> set f \<and> d = takeWhile (\<lambda>c. c \<noteq> CHR ''.'') f) \<and>
         d @ ''.otu_table.clean'' \<in> set scan_files \<and> d @ ''.metadata.clean'' \<in> set scan_files}"
proof -
  have ok: "set_order_ok (remdups :: string list \<Rightarrow> string list)"
    by (simp add: set_order_ok_def)
  have ev: "get_dataset_ids remdups scan_files = [''A'']"
    by (simp add: get_dataset_ids_def scan_files_def)
  from ok ev get_dataset_ids_complete_pairs[OF ok, of scan_files] show ?thesis
    by (intro conjI) simp_all
qed

section \<open>Properties of the catalog resolver\<close>








lemma set_if_absent_apply:
  "set_if_absent k v d k' = (if k' = k \<and> d k = None then Some v else d k')"
  by (simp add: set_if_absent_def split: option.splits)

lemma fill_defaults_apply:
  "fill_defaults d k =
     (if d k \<noteq> None then d k
      else if k = ''region'' \<or> k = ''sequencer'' \<or> k = ''year'' then Some (YStr ''unk'')
      else if k = ''disease_label'' then Some (YStr ''DiseaseState'')
      else if k = ''table_type'' then Some (YStr ''classic'')
      else None)"
  by (auto simp: fill_defaults_def set_if_absent_apply)

lemma otu_table_step_keeps:
  "otu_table_step r b ds d = Inr d' \<Longrightarrow> d k = Some v \<Longrightarrow> d' k = Some v"
  by (auto simp: otu_table_step_def Let_def split: option.splits yval.splits)

lemma otu_table_step_other:
  "otu_table_step r b ds d = Inr d' \<Longrightarrow> k \<noteq> ''otu_table'' \<Longrightarrow> d' k = d k"
  by (auto simp: otu_table_step_def Let_def split: option.splits yval.splits)

lemma metadata_file_step_keeps:
  "metadata_file_step r b ds d = Inr d' \<Longrightarrow> d k = Some v \<Longrightarrow> d' k = Some v"
  by (auto simp: metadata_file_step_def Let_def split: option.splits yval.splits)

lemma metadata_file_step_other:
  "metadata_file_step r b ds d = Inr d' \<Longrightarrow> k \<noteq> ''metadata_file'' \<Longrightarrow> d' k = d k"
  by (auto simp: metadata_file_step_def Let_def split: option.splits yval.splits)

lemma summary_file_step_keeps:
  "summary_file_step r b ds d = (out, Inr d') \<Longrightarrow> d k = Some v \<Longrightarrow> d' k = Some v"
  by (auto simp: summary_file_step_def Let_def split: option.splits yval.splits)

lemma summary_file_step_other:
  "summary_file_step r b ds d = (out, Inr d') \<Longrightarrow> k \<noteq> ''summary_file'' \<Longrightarrow> d' k = d k"
  by (auto simp: summary_file_step_def Let_def split: option.splits yval.splits)

lemma resolve_entry_steps:
  assumes "resolve_entry r b ds d = (out, Inr d')"
  obtains d1 d2 d3 where
    "otu_table_step r b ds d = Inr d1"
    "metadata_file_step r b ds d1 = Inr d2"
    "summary_file_step r b ds d2 = (out, Inr d3)"
    "d' = fill_defaults d3"
  using assms by (auto simp: resolve_entry_def split: sum.splits prod.splits)

lemma resolve_entry_keeps:
  assumes "resolve_entry r b ds d = (out, Inr d')" and "d k = Some v"
  shows "d' k = Some v"
proof -
  from assms(1) obtain d1 d2 d3 where
    s1: "otu_table_step r b ds d = Inr d1" and
    s2: "metadata_file_step r b ds d1 = Inr d2" and
    s3: "summary_file_step r b ds d2 = (out, Inr d3)" and
    d': "d' = fill_defaults d3"
    by (rule resolve_entry_steps)
  have "d1 k = Some v" using otu_table_step_keeps[OF s1 assms(2)] .
  then have "d2 k = Some v" by (rule metadata_file_step_keeps[OF s2])
  then have "d3 k = Some v" by (rule summary_file_step_keeps[OF s3])
  then show ?thesis unfolding d' by (simp add: fill_defaults_apply)
qed

lemma resolve_entry_dom:
  assumes "resolve_entry r b ds d = (out, Inr d')"
  shows "dom d' \<subseteq> dom d \<union> {''otu_table'', ''metadata_file'', ''summary_file'', ''region'',
            ''sequencer'', ''disease_label'', ''table_type'', ''year''}"
proof
  fix k assume k: "k \<in> dom d'"
  from assms obtain d1 d2 d3 where
    s1: "otu_table_step r b ds d = Inr d1" and
    s2: "metadata_file_step r b ds d1 = Inr d2" and
    s3: "summary_file_step r b ds d2 = (out, Inr d3)" and
    d': "d' = fill_defaults d3"
    by (rule resolve_entry_steps)
  show "k \<in> dom d \<union> {''otu_table'', ''metadata_file'', ''summary_file'', ''region'',
            ''sequencer'', ''disease_label'', ''table_type'', ''year''}"
  proof (rule ccontr)
    assume n: "\<not> ?thesis"
    then have "d k = None" by auto
    moreover from n have ne: "k \<noteq> ''otu_table''" "k \<noteq> ''metadata_file''" "k \<noteq> ''summary_file''"
      by auto
    ultimately have "d3 k = None"
      using otu_table_step_other[OF s1 ne(1)] metadata_file_step_other[OF s2 ne(2)]
        summary_file_step_other[OF s3 ne(3)] by simp
    with n have "d' k = None" unfolding d' by (simp add: fill_defaults_apply)
    with k show False by auto
  qed
qed

lemma resolve_entry_defaults:
  assumes "resolve_entry r b ds d = (out, Inr d')"
      and "k \<in> {''region'', ''sequencer'', ''disease_label'', ''table_type'', ''year''}"
      and "d k = None"
  shows "d' k = fill_defaults Map.empty k"
proof -
  from assms(1) obtain d1 d2 d3 where
    s1: "otu_table_step r b ds d = Inr d1" and
    s2: "metadata_file_step r b ds d1 = Inr d2" and
    s3: "summary_file_step r b ds d2 = (out, Inr d3)" and
    d': "d' = fill_defaults d3"
    by (rule resolve_entry_steps)
  from assms(2) have ne: "k \<noteq> ''otu_table''" "k \<noteq> ''metadata_file''" "k \<noteq> ''summary_file''"
    by auto
  have "d3 k = None"
    using otu_table_step_other[OF s1 ne(1)] metadata_file_step_other[OF s2 ne(2)]
        summary_file_step_other[OF s3 ne(3)] assms(3) by simp
  then show ?thesis unfolding d' using assms(2) by (auto simp: fill_defaults_apply)
qed

lemma read_yaml_resolves:
  "read_yaml r b reg = (out, Inr reg') \<Longrightarrow> (k, d) \<in> set reg \<Longrightarrow>
   \<exists>out0 d'. resolve_entry r b k d = (out0, Inr d') \<and> (k, d') \<in> set reg'"
proof (induction reg arbitrary: out reg')
  case Nil
  then show ?case by simp
next
  case (Cons a reg)
  obtain k0 d0 where a: "a = (k0, d0)" by (cases a)
  from Cons.prems(1) obtain o1 d0' o2 rest' where
    r1: "resolve_entry r b k0 d0 = (o1, Inr d0')" and
    r2: "read_yaml r b reg = (o2, Inr rest')" and
    reg': "reg' = (k0, d0') # rest'"
    unfolding a by (auto split: prod.splits sum.splits)
  show ?case
  proof (cases "(k, d) = (k0, d0)")
    case True
    then show ?thesis using r1 reg' by auto
  next
    case False
    then have "(k, d) \<in> set reg" using Cons.prems(2) a by auto
    from Cons.IH[OF r2 this] show ?thesis unfolding reg' by auto
  qed
qed

lemma read_yaml_append:
  "read_yaml r b pre = (o1, Inr pre') \<Longrightarrow>
   read_yaml r b (pre @ rest) =
     (case read_yaml r b rest of
        (o2, Inl e) \<Rightarrow> (o1 @ o2, Inl e)
      | (o2, Inr rest') \<Rightarrow> (o1 @ o2, Inr (pre' @ rest')))"
proof (induction pre arbitrary: o1 pre')
  case Nil
  then show ?case by (auto split: prod.splits sum.splits)
next
  case (Cons a pre)
  obtain k0 d0 where a: "a = (k0, d0)" by (cases a)
  from Cons.prems obtain oa d0' ob pre0 where
    r1: "resolve_entry r b k0 d0 = (oa, Inr d0')" and
    r2: "read_yaml r b pre = (ob, Inr pre0)" and
    o1: "o1 = oa @ ob" and pre': "pre' = (k0, d0') # pre0"
    unfolding a by (auto split: prod.splits sum.splits)
  show ?case
    unfolding a using r1 Cons.IH[OF r2, of ] o1 pre'
    by (auto split: prod.splits sum.splits)
qed


lemma summary_file_step_folder:
  "d ''folder'' = Some (YStr f) \<Longrightarrow> \<exists>d3. summary_file_step r b ds d = ([], Inr d3)"
  by (cases "d ''summary_file''") (simp_all add: summary_file_step_def Let_def)

lemma resolve_entry_folder:
  assumes "data ''folder'' = Some (YStr folder)"
      and "data ''otu_table'' = None" and "data ''metadata_file'' = None"
  shows "\<exists>out data'. resolve_entry realpath base dataset data = (out, Inr data') \<and>
     data' ''otu_table'' = Some (YStr (realpath
        (os_path_join (os_path_join (os_path_join base folder) ''RDP'')
           (folder_prefix folder @ ''.otu_table.100.denovo.rdp_assigned'')))) \<and>
     data' ''metadata_file'' = Some (YStr (realpath
        (os_path_join (os_path_join base folder) (folder_prefix folder @ ''.metadata.txt''))))"
proof -
  let ?otu = "YStr (realpath
        (os_path_join (os_path_join (os_path_join base folder) ''RDP'')
           (folder_prefix folder @ ''.otu_table.100.denovo.rdp_assigned'')))"
  let ?meta = "YStr (realpath
        (os_path_join (os_path_join base folder) (folder_prefix folder @ ''.metadata.txt'')))"
  let ?d1 = "data(''otu_table'' \<mapsto> ?otu)"
  let ?d2 = "?d1(''metadata_file'' \<mapsto> ?meta)"
  have s1: "otu_table_step realpath base dataset data = Inr ?d1"
    using assms by (simp add: otu_table_step_def Let_def)
  have s2: "metadata_file_step realpath base dataset ?d1 = Inr ?d2"
    using assms by (simp add: metadata_file_step_def Let_def)
  have f2: "?d2 ''folder'' = Some (YStr folder)"
    using assms(1) by simp
  obtain out d3 where s3: "summary_file_step realpath base dataset ?d2 = (out, Inr d3)"
    using summary_file_step_folder[of "?d2" folder realpath base dataset] f2 by blast
  have r: "resolve_entry realpath base dataset data = (out, Inr (fill_defaults d3))"
    by (simp add: resolve_entry_def s1 s2 s3)
  have "d3 ''otu_table'' = Some ?otu"
    by (rule summary_file_step_keeps[OF s3]) simp
  then have a: "fill_defaults d3 ''otu_table'' = Some ?otu"
    by (simp add: fill_defaults_apply)
  have "d3 ''metadata_file'' = Some ?meta"
    by (rule summary_file_step_keeps[OF s3]) simp
  then have b: "fill_defaults d3 ''metadata_file'' = Some ?meta"
    by (simp add: fill_defaults_apply)
  show ?thesis
    by (intro exI conjI, rule r, rule a, rule b)
qed

text \<open>
  Claim C8. In the registry that \<open>read_yaml\<close> returns, the entry of a dataset has every
  field of the input entry with its value unchanged. The only fields it can have gained
  are the three paths and the five defaults, and each default that was absent has its value:
  \<^verbatim>\<open>region\<close>, \<^verbatim>\<open>sequencer\<close> and \<^verbatim>\<open>year\<close> are unk, \<^verbatim>\<open>disease_label\<close> is DiseaseState,
  \<^verbatim>\<open>table_type\<close> is classic.
\<close>

theorem explicit_fields_are_kept:
  assumes "read_yaml realpath base reg = (out, Inr reg')" and "(dataset, data) \<in> set reg"
  shows "\<exists>data'. (dataset, data') \<in> set reg' \<and>
     (\<forall>k v. data k = Some v \<longrightarrow> data' k = Some v) \<and>
     dom data' \<subseteq> dom data \<union> {''otu_table'', ''metadata_file'', ''summary_file'', ''region'',
            ''sequencer'', ''disease_label'', ''table_type'', ''year''} \<and>
     (data ''region'' = None \<longrightarrow> data' ''region'' = Some (YStr ''unk'')) \<and>
     (data ''sequencer'' = None \<longrightarrow> data' ''sequencer'' = Some (YStr ''unk'')) \<and>
     (data ''year'' = None \<longrightarrow> data' ''year'' = Some (YStr ''unk'')) \<and>
     (data ''disease_label'' = None \<longrightarrow> data' ''disease_label'' = Some (YStr ''DiseaseState'')) \<and>
     (data ''table_type'' = None \<longrightarrow> data' ''table_type'' = Some (YStr ''classic''))"
proof -
  from read_yaml_resolves[OF assms] obtain out0 d' where
    r: "resolve_entry realpath base dataset data = (out0, Inr d')" and m: "(dataset, d') \<in> set reg'"
    by blast
  have k: "\<forall>k v. data k = Some v \<longrightarrow> d' k = Some v"
    using resolve_entry_keeps[OF r] by blast
  have d: "dom d' \<subseteq> dom data \<union> {''otu_table'', ''metadata_file'', ''summary_file'', ''region'',
            ''sequencer'', ''disease_label'', ''table_type'', ''year''}"
    by (rule resolve_entry_dom[OF r])
  have 1: "data ''region'' = None \<longrightarrow> d' ''region'' = Some (YStr ''unk'')"
    using resolve_entry_defaults[OF r, of "''region''"] by (simp add: fill_defaults_apply)
  have 2: "data ''sequencer'' = None \<longrightarrow> d' ''sequencer'' = Some (YStr ''unk'')"
    using resolve_entry_defaults[OF r, of "''sequencer''"] by (simp add: fill_defaults_apply)
  have 3: "data ''year'' = None \<longrightarrow> d' ''year'' = Some (YStr ''unk'')"
    using resolve_entry_defaults[OF r, of "''year''"] by (simp add: fill_defaults_apply)
  have 4: "data ''disease_label'' = None \<longrightarrow> d' ''disease_label'' = Some (YStr ''DiseaseState'')"
    using resolve_entry_defaults[OF r, of "''disease_label''"] by (simp add: fill_defaults_apply)
  have 5: "data ''table_type'' = None \<longrightarrow> d' ''table_type'' = Some (YStr ''classic'')"
    using resolve_entry_defaults[OF r, of "''table_type''"] by (simp add: fill_defaults_apply)
  show ?thesis
    by (intro exI[of _ d'] conjI) (rule m k d 1 2 3 4 5)+
qed

theorem explicit_fields_are_kept_witness:
  "\<exists>out reg' data'.
     read_yaml (\<lambda>p. p) ''/data'' [(''ds1'', folder_entry)] = (out, Inr reg') \<and>
     (''ds1'', folder_entry) \<in> set [(''ds1'', folder_entry)] \<and>
     (''ds1'', data') \<in> set reg' \<and>
     data' ''folder'' = Some (YStr ''foo_bar_results'') \<and>
     data' ''region'' = Some (YStr ''V4'') \<and>
     data' ''year'' = Some (YInt 2014) \<and>
     data' ''sequencer'' = Some (YStr ''unk'') \<and>
     data' ''disease_label'' = Some (YStr ''DiseaseState'') \<and>
     data' ''table_type'' = Some (YStr ''classic'')"
proof -
  have f: "folder_entry ''folder'' = Some (YStr ''foo_bar_results'')"
    and o: "folder_entry ''otu_table'' = None" and m: "folder_entry ''metadata_file'' = None"
    by (simp_all add: folder_entry_def)
  from resolve_entry_folder[where data=folder_entry and realpath="\<lambda>p. p"
        and base="''/data''" and dataset="''ds1''", OF f o m]
  obtain out0 d0 where r: "resolve_entry (\<lambda>p. p) ''/data'' ''ds1'' folder_entry = (out0, Inr d0)"
    by blast
  have ry: "read_yaml (\<lambda>p. p) ''/data'' [(''ds1'', folder_entry)] = (out0, Inr [(''ds1'', d0)])"
    by (simp add: r)
  have mem: "(''ds1'', folder_entry) \<in> set [(''ds1'', folder_entry)]"
    by simp
  from explicit_fields_are_kept[where data=folder_entry, OF ry mem] obtain data' where
    in': "(''ds1'', data') \<in> set [(''ds1'', d0)]" and
    keep: "\<forall>k v. folder_entry k = Some v \<longrightarrow> data' k = Some v" and
    d1: "folder_entry ''sequencer'' = None \<longrightarrow> data' ''sequencer'' = Some (YStr ''unk'')" and
    d2: "folder_entry ''disease_label'' = None \<longrightarrow> data' ''disease_label'' = Some (YStr ''DiseaseState'')" and
    d3: "folder_entry ''table_type'' = None \<longrightarrow> data' ''table_type'' = Some (YStr ''classic'')"
    by (elim exE conjE) (rule that, assumption+)
  have k1: "data' ''folder'' = Some (YStr ''foo_bar_results'')"
    using keep[rule_format, of "''folder''" "YStr ''foo_bar_results''"]
    by (simp add: folder_entry_def)
  have k2: "data' ''region'' = Some (YStr ''V4'')"
    using keep[rule_format, of "''region''" "YStr ''V4''"]
    by (simp add: folder_entry_def)
  have k3: "data' ''year'' = Some (YInt 2014)"
    using keep[rule_format, of "''year''" "YInt 2014"]
    by (simp add: folder_entry_def)
  have k4: "data' ''sequencer'' = Some (YStr ''unk'')"
    using d1 by (simp add: folder_entry_def)
  have k5: "data' ''disease_label'' = Some (YStr ''DiseaseState'')"
    using d2 by (simp add: folder_entry_def)
  have k6: "data' ''table_type'' = Some (YStr ''classic'')"
    using d3 by (simp add: folder_entry_def)
  show ?thesis
    by (intro exI[of _ out0] exI[of _ "[(''ds1'', d0)]"] exI[of _ data'] conjI)
       (rule ry mem in' k1 k2 k3 k4 k5 k6)+
qed

lemma resolve_entry_no_otu:
  "d ''folder'' = None \<Longrightarrow> d ''otu_table'' = None \<Longrightarrow>
   resolve_entry r b ds d =
     ([], Inl (ValueError (''No OTU table or results folder specified for dataset '' @ ds)))"
  by (simp add: resolve_entry_def otu_table_step_def)

lemma resolve_entry_no_metadata:
  "d ''folder'' = None \<Longrightarrow> d ''otu_table'' \<noteq> None \<Longrightarrow> d ''metadata_file'' = None \<Longrightarrow>
   resolve_entry r b ds d =
     ([], Inl (ValueError (''No metadata file or results folder specified for dataset '' @ ds)))"
  by (auto simp: resolve_entry_def otu_table_step_def metadata_file_step_def)

lemma resolve_entry_no_summary:
  "d ''folder'' = None \<Longrightarrow> d ''otu_table'' \<noteq> None \<Longrightarrow> d ''metadata_file'' \<noteq> None \<Longrightarrow>
   d ''summary_file'' = None \<Longrightarrow>
   resolve_entry r b ds d =
     ([''No summary file or results folder specified for dataset '' @ ds],
      Inr (fill_defaults d))"
  by (auto simp: resolve_entry_def otu_table_step_def metadata_file_step_def
        summary_file_step_def)

lemma read_yaml_entry_error:
  assumes "read_yaml r b pre = (out1, Inr pre')"
      and "resolve_entry r b ds d = (out2, Inl e)"
  shows "read_yaml r b (pre @ (ds, d) # post) = (out1 @ out2, Inl e)"
proof -
  have "read_yaml r b ((ds, d) # post) = (out2, Inl e)"
    using assms(2) by simp
  then show ?thesis
    using read_yaml_append[OF assms(1), of "(ds, d) # post"] by simp
qed

lemma read_yaml_entry_ok:
  assumes "read_yaml r b pre = (out1, Inr pre')"
      and "resolve_entry r b ds d = (out2, Inr d')"
  shows "read_yaml r b (pre @ (ds, d) # post) =
     (case read_yaml r b post of
        (out3, Inl e) \<Rightarrow> (out1 @ out2 @ out3, Inl e)
      | (out3, Inr post') \<Rightarrow> (out1 @ out2 @ out3, Inr (pre' @ (ds, d') # post')))"
proof -
  have "read_yaml r b ((ds, d) # post) =
     (case read_yaml r b post of
        (out3, Inl e) \<Rightarrow> (out2 @ out3, Inl e)
      | (out3, Inr post') \<Rightarrow> (out2 @ out3, Inr ((ds, d') # post')))"
    using assms(2) by simp
  then show ?thesis
    using read_yaml_append[OF assms(1), of "(ds, d) # post"]
    by (simp split: prod.splits sum.splits)
qed






text \<open>
  Claim C5. Let the entries before it resolve, and let an entry have no \<^verbatim>\<open>folder\<close>.
  Without \<^verbatim>\<open>otu_table\<close> the call ends in the ValueError for the OTU table; with it and
  without \<^verbatim>\<open>metadata_file\<close>, in the ValueError for the metadata file. With both and
  without \<^verbatim>\<open>summary_file\<close>, the entry resolves: one warning is printed,
  \<^verbatim>\<open>summary_file\<close> stays unset, and the loop goes on to the entries after it.
\<close>

theorem missing_folder_error_or_warning:
  assumes "read_yaml realpath base pre = (out1, Inr pre')"
      and "data ''folder'' = None"
  shows
    "(data ''otu_table'' = None \<longrightarrow>
        read_yaml realpath base (pre @ (dataset, data) # post) =
          (out1, Inl (ValueError
             (''No OTU table or results folder specified for dataset '' @ dataset)))) \<and>
     (data ''otu_table'' \<noteq> None \<and> data ''metadata_file'' = None \<longrightarrow>
        read_yaml realpath base (pre @ (dataset, data) # post) =
          (out1, Inl (ValueError
             (''No metadata file or results folder specified for dataset '' @ dataset)))) \<and>
     (data ''otu_table'' \<noteq> None \<and> data ''metadata_file'' \<noteq> None \<and>
      data ''summary_file'' = None \<longrightarrow>
        resolve_entry realpath base dataset data =
          ([''No summary file or results folder specified for dataset '' @ dataset],
           Inr (fill_defaults data)) \<and>
        fill_defaults data ''summary_file'' = None \<and>
        read_yaml realpath base (pre @ (dataset, data) # post) =
          (case read_yaml realpath base post of
             (out3, Inl e) \<Rightarrow>
               (out1 @ [''No summary file or results folder specified for dataset '' @ dataset]
                  @ out3, Inl e)
           | (out3, Inr post') \<Rightarrow>
               (out1 @ [''No summary file or results folder specified for dataset '' @ dataset]
                  @ out3,
                Inr (pre' @ (dataset, fill_defaults data) # post'))))"
proof (intro conjI impI)
  assume "data ''otu_table'' = None"
  from read_yaml_entry_error[OF assms(1) resolve_entry_no_otu[OF assms(2) this]]
  show "read_yaml realpath base (pre @ (dataset, data) # post) =
          (out1, Inl (ValueError
             (''No OTU table or results folder specified for dataset '' @ dataset)))"
    by simp
next
  assume "data ''otu_table'' \<noteq> None \<and> data ''metadata_file'' = None"
  then have "resolve_entry realpath base dataset data =
     ([], Inl (ValueError (''No metadata file or results folder specified for dataset '' @ dataset)))"
    using assms(2) by (intro resolve_entry_no_metadata) simp_all
  from read_yaml_entry_error[OF assms(1) this]
  show "read_yaml realpath base (pre @ (dataset, data) # post) =
          (out1, Inl (ValueError
             (''No metadata file or results folder specified for dataset '' @ dataset)))"
    by simp
next
  assume h: "data ''otu_table'' \<noteq> None \<and> data ''metadata_file'' \<noteq> None \<and>
      data ''summary_file'' = None"
  then show r: "resolve_entry realpath base dataset data =
          ([''No summary file or results folder specified for dataset '' @ dataset],
           Inr (fill_defaults data))"
    using assms(2) by (intro resolve_entry_no_summary) simp_all
  from h show "fill_defaults data ''summary_file'' = None"
    by (simp add: fill_defaults_apply)
  from read_yaml_entry_ok[OF assms(1) r]
  show "read_yaml realpath base (pre @ (dataset, data) # post) =
          (case read_yaml realpath base post of
             (out3, Inl e) \<Rightarrow>
               (out1 @ [''No summary file or results folder specified for dataset '' @ dataset]
                  @ out3, Inl e)
           | (out3, Inr post') \<Rightarrow>
               (out1 @ [''No summary file or results folder specified for dataset '' @ dataset]
                  @ out3,
                Inr (pre' @ (dataset, fill_defaults data) # post')))"
    by simp
qed

theorem missing_folder_error_or_warning_witness:
  "read_yaml (\<lambda>p. p) ''/data'' [] = ([], Inr []) \<and>
   Map.empty ''folder'' = (None :: yval option) \<and>
   read_yaml (\<lambda>p. p) ''/data'' [(''ds'', Map.empty)] =
     ([], Inl (ValueError ''No OTU table or results folder specified for dataset ds'')) \<and>
   read_yaml (\<lambda>p. p) ''/data'' [(''ds'', [''otu_table'' \<mapsto> YStr ''/x/otu.txt''])] =
     ([], Inl (ValueError ''No metadata file or results folder specified for dataset ds'')) \<and>
   read_yaml (\<lambda>p. p) ''/data'' [(''ds'', paths_entry)] =
     ([''No summary file or results folder specified for dataset ds''],
      Inr [(''ds'', fill_defaults paths_entry)]) \<and>
   fill_defaults paths_entry ''summary_file'' = None"
proof -
  have e: "read_yaml (\<lambda>p. p) ''/data'' [] = ([], Inr [])"
    by simp
  have n0: "Map.empty ''folder'' = (None :: yval option)"
    by simp
  have n1: "[''otu_table'' \<mapsto> YStr ''/x/otu.txt''] ''folder'' = None"
    by simp
  have n2: "paths_entry ''folder'' = None"
    by (simp add: paths_entry_def)
  have a: "read_yaml (\<lambda>p. p) ''/data'' [(''ds'', Map.empty)] =
     ([], Inl (ValueError ''No OTU table or results folder specified for dataset ds''))"
    using missing_folder_error_or_warning[where data="Map.empty" and dataset="''ds''"
        and post="[]" and pre="[]" and realpath="\<lambda>p. p" and base="''/data''", OF e n0]
    by simp
  have b: "read_yaml (\<lambda>p. p) ''/data'' [(''ds'', [''otu_table'' \<mapsto> YStr ''/x/otu.txt''])] =
     ([], Inl (ValueError ''No metadata file or results folder specified for dataset ds''))"
    using missing_folder_error_or_warning[where data="[''otu_table'' \<mapsto> YStr ''/x/otu.txt'']"
        and dataset="''ds''" and post="[]" and pre="[]" and realpath="\<lambda>p. p"
        and base="''/data''", OF e n1]
    by simp
  have c: "read_yaml (\<lambda>p. p) ''/data'' [(''ds'', paths_entry)] =
     ([''No summary file or results folder specified for dataset ds''],
      Inr [(''ds'', fill_defaults paths_entry)]) \<and>
     fill_defaults paths_entry ''summary_file'' = None"
    using missing_folder_error_or_warning[where data=paths_entry and dataset="''ds''"
        and post="[]" and pre="[]" and realpath="\<lambda>p. p" and base="''/data''", OF e n2]
    by (simp add: paths_entry_def)
  from e n0 a b c show ?thesis by (intro conjI) simp_all
qed

section \<open>Properties of the dataset loader\<close>

lemma set_index_dtype: "set_index t c = Inr t' \<Longrightarrow> df_index_dtype t' = Object"
  by (auto simp: set_index_def split: if_splits)

lemma index_as_text_dtype: "index_as_text rt p t = Inr t' \<Longrightarrow> df_index_dtype t' = Object"
  by (auto simp: index_as_text_def split: if_splits sum.splits dest: set_index_dtype)

lemma index_as_text_value:
  assumes "df_index_dtype t = Object \<or> (rt p = Inr c \<and> length c = length (df_index t))"
  shows "index_as_text rt p t =
     Inr (if df_index_dtype t = Object then t else t\<lparr>df_index := c, df_index_dtype := Object\<rparr>)"
  using assms by (auto simp: index_as_text_def set_index_def)

text \<open>
  The loader tests the dtype of the index and nothing else. Whatever the two readers
  return, every pair of tables that \<open>read_dataset_files\<close> returns has a row index of dtype
  \<^verbatim>\<open>'O'\<close> in both tables. It returns a pair when both files read: a table whose index was
  read under \<^verbatim>\<open>'O'\<close> is returned as read; a table whose index was read as numbers gets as
  index the first column read again as text, provided that read succeeds and has one
  value for each row.
\<close>

lemma read_dataset_files_dtype:
  "(\<forall>df meta. read_dataset_files rc rt datasetid clean_folder = Inr (df, meta) \<longrightarrow>
       df_index_dtype df = Object \<and> df_index_dtype meta = Object) \<and>
   (rc (os_path_join clean_folder (datasetid @ ''.otu_table.clean'')) = Inr df0 \<and>
    rc (os_path_join clean_folder (datasetid @ ''.metadata.clean'')) = Inr meta0 \<and>
    (df_index_dtype df0 = Object \<or>
       rt (os_path_join clean_folder (datasetid @ ''.otu_table.clean'')) = Inr c1 \<and>
       length c1 = length (df_index df0)) \<and>
    (df_index_dtype meta0 = Object \<or>
       rt (os_path_join clean_folder (datasetid @ ''.metadata.clean'')) = Inr c2 \<and>
       length c2 = length (df_index meta0)) \<longrightarrow>
    read_dataset_files rc rt datasetid clean_folder =
      Inr (if df_index_dtype df0 = Object then df0
           else df0\<lparr>df_index := c1, df_index_dtype := Object\<rparr>,
           if df_index_dtype meta0 = Object then meta0
           else meta0\<lparr>df_index := c2, df_index_dtype := Object\<rparr>))"
proof (intro conjI allI impI)
  fix df meta
  assume r: "read_dataset_files rc rt datasetid clean_folder = Inr (df, meta)"
  then obtain a b where
    "index_as_text rt (os_path_join clean_folder (datasetid @ ''.otu_table.clean'')) a = Inr df"
    "index_as_text rt (os_path_join clean_folder (datasetid @ ''.metadata.clean'')) b = Inr meta"
    by (auto simp: read_dataset_files_def Let_def split: sum.splits)
  then show "df_index_dtype df = Object" and "df_index_dtype meta = Object"
    by (auto dest: index_as_text_dtype)
next
  assume h: "rc (os_path_join clean_folder (datasetid @ ''.otu_table.clean'')) = Inr df0 \<and>
    rc (os_path_join clean_folder (datasetid @ ''.metadata.clean'')) = Inr meta0 \<and>
    (df_index_dtype df0 = Object \<or>
       rt (os_path_join clean_folder (datasetid @ ''.otu_table.clean'')) = Inr c1 \<and>
       length c1 = length (df_index df0)) \<and>
    (df_index_dtype meta0 = Object \<or>
       rt (os_path_join clean_folder (datasetid @ ''.metadata.clean'')) = Inr c2 \<and>
       length c2 = length (df_index meta0))"
  then have a: "index_as_text rt (os_path_join clean_folder (datasetid @ ''.otu_table.clean'')) df0
      = Inr (if df_index_dtype df0 = Object then df0
             else df0\<lparr>df_index := c1, df_index_dtype := Object\<rparr>)"
    by (intro index_as_text_value) simp
  from h have b: "index_as_text rt (os_path_join clean_folder (datasetid @ ''.metadata.clean'')) meta0
      = Inr (if df_index_dtype meta0 = Object then meta0
             else meta0\<lparr>df_index := c2, df_index_dtype := Object\<rparr>)"
    by (intro index_as_text_value) simp
  from h a b show "read_dataset_files rc rt datasetid clean_folder =
      Inr (if df_index_dtype df0 = Object then df0
           else df0\<lparr>df_index := c1, df_index_dtype := Object\<rparr>,
           if df_index_dtype meta0 = Object then meta0
           else meta0\<lparr>df_index := c2, df_index_dtype := Object\<rparr>)"
    by (simp add: read_dataset_files_def Let_def)
qed

text \<open>
  The pair with the sample identifiers 1001 and 1002, read as integers: it loads with the
  index \<^verbatim>\<open>['1001', '1002']\<close> of strings in both tables.
\<close>

lemma numeric_index_is_reread:
  "read_dataset_files numeric_reader text_reader ''D'' ''/clean'' =
     Inr (\<lparr>df_index = [CStr ''1001'', CStr ''1002''], df_index_dtype = Object,
           df_columns = [''otu1'' \<mapsto> [CInt 3, CInt 5]]\<rparr>,
          \<lparr>df_index = [CStr ''1001'', CStr ''1002''], df_index_dtype = Object,
           df_columns = [''DiseaseState'' \<mapsto> [CStr ''H'', CStr ''CD'']]\<rparr>) \<and>
   df_index_dtype \<lparr>df_index = [CStr ''1001'', CStr ''1002''], df_index_dtype = Object,
           df_columns = [''otu1'' \<mapsto> [CInt 3, CInt 5]]\<rparr> = Object"
proof -
  have p1: "os_path_join ''/clean'' (''D'' @ ''.otu_table.clean'') = ''/clean/D.otu_table.clean''"
    and p2: "os_path_join ''/clean'' (''D'' @ ''.metadata.clean'') = ''/clean/D.metadata.clean''"
    by (simp_all add: os_path_join_def)
  have r1: "numeric_reader ''/clean/D.otu_table.clean'' =
      Inr \<lparr>df_index = [CInt 1001, CInt 1002], df_index_dtype = Int64,
                df_columns = [''otu1'' \<mapsto> [CInt 3, CInt 5]]\<rparr>"
    by (simp add: numeric_reader_def)
  have r2: "numeric_reader ''/clean/D.metadata.clean'' =
      Inr \<lparr>df_index = [CInt 1001, CInt 1002], df_index_dtype = Int64,
                df_columns = [''DiseaseState'' \<mapsto> [CStr ''H'', CStr ''CD'']]\<rparr>"
    by (simp add: numeric_reader_def)
  have t1: "text_reader ''/clean/D.otu_table.clean'' = Inr [CStr ''1001'', CStr ''1002'']"
    and t2: "text_reader ''/clean/D.metadata.clean'' = Inr [CStr ''1001'', CStr ''1002'']"
    by (simp_all add: text_reader_def)
  note t = read_dataset_files_dtype[of numeric_reader text_reader "''D''" "''/clean''"
      "\<lparr>df_index = [CInt 1001, CInt 1002], df_index_dtype = Int64,
                df_columns = [''otu1'' \<mapsto> [CInt 3, CInt 5]]\<rparr>"
      "\<lparr>df_index = [CInt 1001, CInt 1002], df_index_dtype = Int64,
                df_columns = [''DiseaseState'' \<mapsto> [CStr ''H'', CStr ''CD'']]\<rparr>"
      "[CStr ''1001'', CStr ''1002'']" "[CStr ''1001'', CStr ''1002'']"]
  have ev: "read_dataset_files numeric_reader text_reader ''D'' ''/clean'' =
     Inr (\<lparr>df_index = [CStr ''1001'', CStr ''1002''], df_index_dtype = Object,
           df_columns = [''otu1'' \<mapsto> [CInt 3, CInt 5]]\<rparr>,
          \<lparr>df_index = [CStr ''1001'', CStr ''1002''], df_index_dtype = Object,
           df_columns = [''DiseaseState'' \<mapsto> [CStr ''H'', CStr ''CD'']]\<rparr>)"
    using t[THEN conjunct2] unfolding p1 p2 r1 r2 t1 t2 by simp
  from t[THEN conjunct1, rule_format, OF ev] ev show ?thesis
    by (intro conjI) simp_all
qed

text \<open>
  Claim C3. The row index of both tables returned is to be of strings, also when every
  sample identifier looks like a number; the source says \<^verbatim>\<open>Make sure sample names are
  strings\<close>. The loader does not achieve it: an index that was read under the dtype
  \<^verbatim>\<open>'O'\<close> is never read again, whatever it holds. For the pair with the identifiers
  99999999999999999999 and 1 both tables are returned with an index of integers, although
  the first column read as text holds the strings.
\<close>

theorem object_index_of_integers_is_kept:
  "read_dataset_files big_id_reader big_id_text_reader ''D'' ''/clean'' =
     Inr (\<lparr>df_index = [CInt 99999999999999999999, CInt 1], df_index_dtype = Object,
           df_columns = [''otu1'' \<mapsto> [CInt 3, CInt 5]]\<rparr>,
          \<lparr>df_index = [CInt 99999999999999999999, CInt 1], df_index_dtype = Object,
           df_columns = [''DiseaseState'' \<mapsto> [CStr ''H'', CStr ''CD'']]\<rparr>) \<and>
   big_id_text_reader ''/clean/D.otu_table.clean''
     = Inr [CStr ''99999999999999999999'', CStr ''1''] \<and>
   [CInt 99999999999999999999, CInt 1] \<noteq> [CStr ''99999999999999999999'', CStr ''1'']"
proof -
  have p1: "os_path_join ''/clean'' (''D'' @ ''.otu_table.clean'') = ''/clean/D.otu_table.clean''"
    and p2: "os_path_join ''/clean'' (''D'' @ ''.metadata.clean'') = ''/clean/D.metadata.clean''"
    by (simp_all add: os_path_join_def)
  have r1: "big_id_reader ''/clean/D.otu_table.clean'' =
      Inr \<lparr>df_index = [CInt 99999999999999999999, CInt 1], df_index_dtype = Object,
                df_columns = [''otu1'' \<mapsto> [CInt 3, CInt 5]]\<rparr>"
    by (simp add: big_id_reader_def)
  have r2: "big_id_reader ''/clean/D.metadata.clean'' =
      Inr \<lparr>df_index = [CInt 99999999999999999999, CInt 1], df_index_dtype = Object,
                df_columns = [''DiseaseState'' \<mapsto> [CStr ''H'', CStr ''CD'']]\<rparr>"
    by (simp add: big_id_reader_def)
  have ev: "read_dataset_files big_id_reader big_id_text_reader ''D'' ''/clean'' =
     Inr (\<lparr>df_index = [CInt 99999999999999999999, CInt 1], df_index_dtype = Object,
           df_columns = [''otu1'' \<mapsto> [CInt 3, CInt 5]]\<rparr>,
          \<lparr>df_index = [CInt 99999999999999999999, CInt 1], df_index_dtype = Object,
           df_columns = [''DiseaseState'' \<mapsto> [CStr ''H'', CStr ''CD'']]\<rparr>)"
    unfolding read_dataset_files_def Let_def p1 p2 r1 r2
    by (simp add: index_as_text_def)
  have t: "big_id_text_reader ''/clean/D.otu_table.clean''
     = Inr [CStr ''99999999999999999999'', CStr ''1'']"
    by (simp add: big_id_text_reader_def)
  have n: "[CInt 99999999999999999999, CInt 1] \<noteq> [CStr ''99999999999999999999'', CStr ''1'']"
    by simp
  from ev t n show ?thesis by (intro conjI)
qed

section \<open>Properties of the batch aggregator\<close>

lemma load_bundle_empty_class:
  assumes "read_dataset_files (read_csv_index0 w) (read_csv_text0 w) dataset datadir
             = Inr (df0, meta)"
      and "raw2abun w df0 = Inr df"
      and "get_classes (label_set_order w) meta = Inr [cs, ds]"
      and "cs = [] \<or> ds = []"
  shows "load_bundle w datadir dataset =
           Inl (ValueError (''Something wrong with '' @ dataset @ '' metadata.''))"
  using assms by (auto simp: load_bundle_def)

lemma dfdict_loop_append:
  "dfdict_loop w datadir pre acc = (out1, Inr acc') \<Longrightarrow>
   dfdict_loop w datadir (pre @ rest) acc =
     (case dfdict_loop w datadir rest acc' of (out2, r) \<Rightarrow> (out1 @ out2, r))"
proof (induction pre arbitrary: acc out1)
  case Nil
  then show ?case by (simp split: prod.splits)
next
  case (Cons d pre)
  from Cons.prems obtain b out0 where
    l: "load_bundle w datadir d = Inr b" and
    r: "dfdict_loop w datadir pre (acc(d \<mapsto> b)) = (out0, Inr acc')" and
    o: "out1 = d # out0"
    by (auto split: sum.splits prod.splits)
  have "dfdict_loop w datadir ((d # pre) @ rest) acc =
      (case dfdict_loop w datadir (pre @ rest) (acc(d \<mapsto> b)) of
         (out, r) \<Rightarrow> (d # out, r))"
    using l by simp
  also have "\<dots> =
      (case (case dfdict_loop w datadir rest acc' of (out2, r) \<Rightarrow> (out0 @ out2, r)) of
         (out, r) \<Rightarrow> (d # out, r))"
    by (simp only: Cons.IH[OF r])
  also have "\<dots> = (case dfdict_loop w datadir rest acc' of (out2, r) \<Rightarrow> (out1 @ out2, r))"
    by (simp add: o split: prod.splits)
  finally show ?case .
qed

lemma dfdict_loop_printed:
  "dfdict_loop w datadir ids acc = (out, Inr acc') \<Longrightarrow> out = ids"
proof (induction ids arbitrary: acc out)
  case Nil
  then show ?case by simp
next
  case (Cons d ids)
  from Cons.prems obtain b out0 where
    r: "dfdict_loop w datadir ids (acc(d \<mapsto> b)) = (out0, Inr acc')" and
    o: "out = d # out0"
    by (auto split: sum.splits prod.splits)
  from Cons.IH[OF r] o show ?case by simp
qed

lemma dfdict_loop_fails:
  "load_bundle w datadir d = Inl e \<Longrightarrow>
   \<exists>out e'. dfdict_loop w datadir (pre @ d # post) acc = (out, Inl e')"
proof (induction pre arbitrary: acc)
  case Nil
  then show ?case by simp
next
  case (Cons p pre)
  show ?case
  proof (cases "load_bundle w datadir p")
    case (Inl e0)
    then show ?thesis by simp
  next
    case (Inr b)
    from Cons.IH[OF Cons.prems, of "acc(p \<mapsto> b)"] obtain out e' where
      "dfdict_loop w datadir (pre @ d # post) (acc(p \<mapsto> b)) = (out, Inl e')"
      by blast
    then show ?thesis using Inr by simp
  qed
qed

text \<open>
  Claim C4. Let the scan of the directory give the datasets \<open>pre\<close>, then \<open>dataset\<close>, then
  \<open>post\<close>, and let the classes computed for \<open>dataset\<close> have an empty control group or an
  empty disease group. Then \<open>read_dfdict_data\<close> ends in an exception and returns no
  mapping. When the datasets of \<open>pre\<close> load, the exception is the ValueError that names
  \<open>dataset\<close>, and the names printed are those of \<open>pre\<close> and \<open>dataset\<close>: no dataset of
  \<open>post\<close> is started.
\<close>

theorem empty_class_aborts_batch:
  assumes "listdir w datadir = Inr files"
      and "get_dataset_ids (id_set_order w) files = pre @ dataset # post"
      and "read_dataset_files (read_csv_index0 w) (read_csv_text0 w) dataset datadir
             = Inr (df0, meta)"
      and "raw2abun w df0 = Inr df"
      and "get_classes (label_set_order w) meta = Inr [cs, ds]"
      and "cs = [] \<or> ds = []"
  shows "(\<exists>out e. read_dfdict_data w datadir = (out, Inl e)) \<and>
     (\<forall>out1 acc. dfdict_loop w datadir pre Map.empty = (out1, Inr acc) \<longrightarrow>
        read_dfdict_data w datadir =
          (''Reading datasets...'' # pre @ [dataset],
           Inl (ValueError (''Something wrong with '' @ dataset @ '' metadata.''))))"
proof (intro conjI allI impI)
  have l: "load_bundle w datadir dataset =
           Inl (ValueError (''Something wrong with '' @ dataset @ '' metadata.''))"
    by (rule load_bundle_empty_class[OF assms(3-6)])
  from dfdict_loop_fails[OF l, of pre post Map.empty] obtain out e where
    "dfdict_loop w datadir (pre @ dataset # post) Map.empty = (out, Inl e)"
    by blast
  then have "read_dfdict_data w datadir = (''Reading datasets...'' # out, Inl e)"
    by (simp add: read_dfdict_data_def assms(1,2))
  then show "\<exists>out e. read_dfdict_data w datadir = (out, Inl e)"
    by blast
  fix out1 acc
  assume p: "dfdict_loop w datadir pre Map.empty = (out1, Inr acc)"
  have o: "out1 = pre"
    by (rule dfdict_loop_printed[OF p])
  have "dfdict_loop w datadir (pre @ dataset # post) Map.empty =
      (pre @ [dataset],
       Inl (ValueError (''Something wrong with '' @ dataset @ '' metadata.'')))"
    using dfdict_loop_append[OF p, of "dataset # post"] l o by simp
  then show "read_dfdict_data w datadir =
          (''Reading datasets...'' # pre @ [dataset],
           Inl (ValueError (''Something wrong with '' @ dataset @ '' metadata.'')))"
    by (simp add: read_dfdict_data_def assms(1,2))
qed


text \<open>
  The example of the specification: a dataset with control labels only. The call ends at
  the first dataset; the second is never read.
\<close>

theorem empty_class_aborts_batch_witness:
  "listdir controls_only_world ''/clean'' =
     Inr [''A.otu_table.clean'', ''A.metadata.clean'', ''B.otu_table.clean'', ''B.metadata.clean''] \<and>
   get_dataset_ids (id_set_order controls_only_world)
     [''A.otu_table.clean'', ''A.metadata.clean'', ''B.otu_table.clean'', ''B.metadata.clean'']
     = [] @ ''A'' # [''B''] \<and>
   get_classes (label_set_order controls_only_world)
     \<lparr>df_index = [CStr ''s1'', CStr ''s2''], df_index_dtype = Object,
      df_columns = [''DiseaseState'' \<mapsto> [CStr ''H'', CStr ''H'']]\<rparr>
     = Inr [[CStr ''H''], []] \<and>
   read_dfdict_data controls_only_world ''/clean'' =
     ([''Reading datasets...'', ''A''],
      Inl (ValueError ''Something wrong with A metadata.''))"
proof -
  let ?t = "\<lparr>df_index = [CStr ''s1'', CStr ''s2''], df_index_dtype = Object,
      df_columns = [''DiseaseState'' \<mapsto> [CStr ''H'', CStr ''H'']]\<rparr>"
  have h1: "listdir controls_only_world ''/clean'' =
     Inr [''A.otu_table.clean'', ''A.metadata.clean'', ''B.otu_table.clean'', ''B.metadata.clean'']"
    by (simp add: controls_only_world_def)
  have h2: "get_dataset_ids (id_set_order controls_only_world)
     [''A.otu_table.clean'', ''A.metadata.clean'', ''B.otu_table.clean'', ''B.metadata.clean'']
     = [] @ ''A'' # [''B'']"
    by (simp add: controls_only_world_def get_dataset_ids_def)
  have h3: "read_dataset_files (read_csv_index0 controls_only_world)
      (read_csv_text0 controls_only_world) ''A'' ''/clean'' = Inr (?t, ?t)"
    by (simp add: controls_only_world_def read_dataset_files_def index_as_text_def)
  have h4: "raw2abun controls_only_world ?t = Inr ?t"
    by (simp add: controls_only_world_def)
  have h5: "get_classes (label_set_order controls_only_world) ?t = Inr [[CStr ''H''], []]"
    by (simp add: controls_only_world_def get_classes_def controls_def diseases_def)
  have h6: "[CStr ''H''] = [] \<or> ([] :: cell list) = []"
    by simp
  have h7: "dfdict_loop controls_only_world ''/clean'' [] Map.empty = ([], Inr Map.empty)"
    by simp
  note t = empty_class_aborts_batch[OF h1 h2 h3 h4 h5 h6]
  have "read_dfdict_data controls_only_world ''/clean'' =
     ([''Reading datasets...'', ''A''],
      Inl (ValueError ''Something wrong with A metadata.''))"
    using t[THEN conjunct2, rule_format, OF h7] by simp
  with h1 h2 h5 show ?thesis by (intro conjI)
qed

end
